theory Spec2Isabelle
  imports Main "HOL-Library.Word"
begin

section \<open>glEvents.h: the user interface event declarations of jetson-utils\<close>

text \<open>
  The header declares four state macros, the enumeration \<open>glEventType\<close>, the callback
  type \<open>glEventHandler\<close> and the prototypes of \<open>glRegisterEvents\<close> and
  \<open>glUnregisterEvents\<close>. It holds no function body.
\<close>

subsection \<open>The state macros\<close>

text \<open>
  \<^verbatim>\<open>#define BUTTON_PRESSED 1\<close>, \<^verbatim>\<open>#define BUTTON_RELEASED 0\<close>,
  \<^verbatim>\<open>#define KEY_PRESSED  1\<close>, \<^verbatim>\<open>#define KEY_RELEASED 0\<close>: integer literals of C type int.
\<close>

definition BUTTON_PRESSED :: int where
  "BUTTON_PRESSED = 1"

definition BUTTON_RELEASED :: int where
  "BUTTON_RELEASED = 0"

definition KEY_PRESSED :: int where
  "KEY_PRESSED = 1"

definition KEY_RELEASED :: int where
  "KEY_RELEASED = 0"

subsection \<open>The enumeration glEventType\<close>

datatype glEventType =
    MOUSE_MOVE
  | MOUSE_BUTTON
  | MOUSE_WHEEL
  | KEY_STATE
  | KEY_RAW
  | KEY_CHAR
  | WINDOW_CLOSED

text \<open>
  The enumerator list as the header writes it: each enumerator with its initialiser, if it
  has one. Only \<open>MOUSE_MOVE\<close> has one (\<^verbatim>\<open>MOUSE_MOVE = 0\<close>).
\<close>

definition glEventType_decl :: "(glEventType \<times> int option) list" where
  "glEventType_decl =
     [(MOUSE_MOVE, Some 0),
      (MOUSE_BUTTON, None),
      (MOUSE_WHEEL, None),
      (KEY_STATE, None),
      (KEY_RAW, None),
      (KEY_CHAR, None),
      (WINDOW_CLOSED, None)]"

text \<open>
  The rule of C and C++ for the value of an enumerator: its initialiser when it has one,
  otherwise the value of the enumerator before it plus one (zero for the first). The first
  argument is the value an enumerator without initialiser takes at this position.
\<close>

fun enum_values :: "int \<Rightarrow> ('a \<times> int option) list \<Rightarrow> ('a \<times> int) list" where
  "enum_values nxt [] = []"
| "enum_values nxt ((e, None) # es) = (e, nxt) # enum_values (nxt + 1) es"
| "enum_values nxt ((e, Some v) # es) = (e, v) # enum_values (v + 1) es"

definition glEventType_values :: "(glEventType \<times> int) list" where
  "glEventType_values = enum_values 0 glEventType_decl"

subsection \<open>Pointers and call forms of the registration functions\<close>

text \<open>
  A \<^verbatim>\<open>void*\<close> is an address of the 64-bit target; \<open>NULL\<close> is address zero. A
  \<open>glEventHandler\<close> is a pointer to a function
  \<^verbatim>\<open>bool (*)(uint16_t event, int a, int b, void* user)\<close>; the registration functions only
  store and compare it, so it is modelled by its address.
\<close>

type_synonym voidptr = "64 word"

type_synonym glEventHandler = "64 word"

definition NULL :: voidptr where
  "NULL = 0"

text \<open>
  \<^verbatim>\<open>void glRegisterEvents( glEventHandler callback, void* user=NULL, uint32_t display=0 );\<close>
  \<^verbatim>\<open>void glUnregisterEvents( glEventHandler callback, void* user=NULL );\<close>
  C++ lets a call leave out trailing arguments that have a default, so the first prototype
  has three call forms and the second two. The functions below give the full argument
  tuple the callee receives for each call form.
\<close>

datatype register_call =
    Register1 glEventHandler
  | Register2 glEventHandler voidptr
  | Register3 glEventHandler voidptr "32 word"

datatype unregister_call =
    Unregister1 glEventHandler
  | Unregister2 glEventHandler voidptr

fun glRegisterEvents_args :: "register_call \<Rightarrow> glEventHandler \<times> voidptr \<times> 32 word" where
  "glRegisterEvents_args (Register1 cb) = (cb, NULL, 0)"
| "glRegisterEvents_args (Register2 cb u) = (cb, u, 0)"
| "glRegisterEvents_args (Register3 cb u d) = (cb, u, d)"

fun glUnregisterEvents_args :: "unregister_call \<Rightarrow> glEventHandler \<times> voidptr" where
  "glUnregisterEvents_args (Unregister1 cb) = (cb, NULL)"
| "glUnregisterEvents_args (Unregister2 cb u) = (cb, u)"

subsection \<open>The handler registry\<close>

text \<open>
  One registration: the callback, the user pointer and the display it was registered for.
  The registry is the list of registrations, oldest first.
\<close>

record registration =
  callback :: glEventHandler
  user :: voidptr
  display :: "32 word"

type_synonym registry = "registration list"

text \<open>
  Modelled from the spec: the body of \<open>glRegisterEvents\<close> is not in the header, which only
  declares it. The specification says that register(callback, user, display) adds a
  handler to be invoked for future events on the given display, that it states no error
  condition, and that handlers are invoked in registration order: the registration is
  appended to the registry. The model puts no guard on a null callback or on a pair that
  is registered already.
\<close>

definition glRegisterEvents :: "glEventHandler \<Rightarrow> voidptr \<Rightarrow> 32 word \<Rightarrow> registry \<Rightarrow> registry" where
  "glRegisterEvents cb u d reg = reg @ [\<lparr>callback = cb, user = u, display = d\<rparr>]"

text \<open>
  Modelled from the spec: the body of \<open>glUnregisterEvents\<close> is not in the header, which only
  declares it. The specification says that unregister(callback, user) removes handlers
  matching both callback and user pointer: a walk over the registry that drops every
  registration whose callback and user pointer both equal the arguments and keeps the
  others in their order. The comment of the header on this prototype words the match as
  \<^verbatim>\<open>the same function pointer and/or user pointer\<close>; which registrations that differ from
  the arguments in one component are removed as well is not settled by the header; this
  model removes none of them.
\<close>

fun glUnregisterEvents :: "glEventHandler \<Rightarrow> voidptr \<Rightarrow> registry \<Rightarrow> registry" where
  "glUnregisterEvents cb u [] = []"
| "glUnregisterEvents cb u (h # hs) =
     (if callback h = cb \<and> user h = u
      then glUnregisterEvents cb u hs
      else h # glUnregisterEvents cb u hs)"

text \<open>The registrations of a registry that are keyed by a given (callback, user) pair.\<close>

definition handlers_for :: "glEventHandler \<Rightarrow> voidptr \<Rightarrow> registry \<Rightarrow> registry" where
  "handlers_for cb u reg = filter (\<lambda>h. callback h = cb \<and> user h = u) reg"

section \<open>Properties of the declarations\<close>

text \<open>
  Claim C1: the event type enumeration has exactly the seven enumerators MOUSE_MOVE,
  MOUSE_BUTTON, MOUSE_WHEEL, KEY_STATE, KEY_RAW, KEY_CHAR, WINDOW_CLOSED, in this order,
  MOUSE_MOVE is 0, and their values are the consecutive integers 0 to 6.
\<close>

theorem glEventType_seven_consecutive:
  "glEventType_values =
     [(MOUSE_MOVE, 0), (MOUSE_BUTTON, 1), (MOUSE_WHEEL, 2), (KEY_STATE, 3),
      (KEY_RAW, 4), (KEY_CHAR, 5), (WINDOW_CLOSED, 6)]
   \<and> length glEventType_values = 7
   \<and> (UNIV :: glEventType set) =
       {MOUSE_MOVE, MOUSE_BUTTON, MOUSE_WHEEL, KEY_STATE, KEY_RAW, KEY_CHAR, WINDOW_CLOSED}"
proof -
  have vals: "glEventType_values =
     [(MOUSE_MOVE, 0), (MOUSE_BUTTON, 1), (MOUSE_WHEEL, 2), (KEY_STATE, 3),
      (KEY_RAW, 4), (KEY_CHAR, 5), (WINDOW_CLOSED, 6)]"
    by (simp add: glEventType_values_def glEventType_decl_def)
  have all: "(UNIV :: glEventType set) =
       {MOUSE_MOVE, MOUSE_BUTTON, MOUSE_WHEEL, KEY_STATE, KEY_RAW, KEY_CHAR, WINDOW_CLOSED}"
  proof
    show "UNIV \<subseteq> {MOUSE_MOVE, MOUSE_BUTTON, MOUSE_WHEEL, KEY_STATE, KEY_RAW, KEY_CHAR,
                  WINDOW_CLOSED}"
    proof
      fix t :: glEventType
      show "t \<in> {MOUSE_MOVE, MOUSE_BUTTON, MOUSE_WHEEL, KEY_STATE, KEY_RAW, KEY_CHAR,
                  WINDOW_CLOSED}"
        by (cases t) simp_all
    qed
  qed simp
  have len: "length glEventType_values = 7"
    by (simp add: vals)
  from vals len all show ?thesis by (intro conjI)
qed

text \<open>
  Claim C2: for mouse buttons and for keys there are two named constants, pressed with
  value 1 and released with value 0: BUTTON_PRESSED = 1, BUTTON_RELEASED = 0,
  KEY_PRESSED = 1 and KEY_RELEASED = 0.
\<close>

theorem state_macro_values:
  "BUTTON_PRESSED = 1 \<and> BUTTON_RELEASED = 0 \<and> KEY_PRESSED = 1 \<and> KEY_RELEASED = 0"
  by (simp add: BUTTON_PRESSED_def BUTTON_RELEASED_def KEY_PRESSED_def KEY_RELEASED_def)

text \<open>
  Claim C9: the user pointer is optional and defaults to NULL in both the register and the
  unregister operation, and the display identifier of the register operation is optional
  and defaults to 0. A call that leaves an argument out passes its default; a call that
  gives it passes what it gives.
\<close>

theorem default_arguments:
  "glRegisterEvents_args (Register1 cb) = (cb, NULL, 0)
   \<and> glRegisterEvents_args (Register2 cb u) = (cb, u, 0)
   \<and> glRegisterEvents_args (Register3 cb u d) = (cb, u, d)
   \<and> glUnregisterEvents_args (Unregister1 cb) = (cb, NULL)
   \<and> glUnregisterEvents_args (Unregister2 cb u) = (cb, u)
   \<and> NULL = 0"
  by (simp add: NULL_def)

section \<open>Properties of the handler registry\<close>

lemma handlers_for_unregistered:
  "handlers_for cb u (glUnregisterEvents cb u reg) = []"
  by (induction reg) (simp_all add: handlers_for_def)

text \<open>
  Claim C4: for every registry, callback and user pointer, register(callback, user)
  followed by unregister(callback, user) leaves no handler registered for that
  (callback, user) pair.
\<close>

theorem register_then_unregister_leaves_none:
  "handlers_for cb u (glUnregisterEvents cb u (glRegisterEvents cb u d reg)) = []"
  by (rule handlers_for_unregistered)

end
